theory Spec2Isabelle
  imports Main "HOL-Library.Word"
begin

section \<open>Kernel types and error codes (karnal.h)\<close>

text \<open>
  The target is a 64-bit kernel: \<open>size_t\<close>, \<open>uint64_t\<close> and \<open>int64_t\<close> are 64-bit
  words. A cast between them keeps the bits, so one word type serves all three; a signed
  reading is \<open>sint\<close>, an unsigned one \<open>unat\<close> or \<open>uint\<close>, and the signed comparison
  \<open>x < 0\<close> of the source is \<open>sint x < 0\<close>.
\<close>

type_synonym int64_t = "64 word"
type_synonym uint64_t = "64 word"
type_synonym size_t = "64 word"
type_synonym uint8_t = "8 word"
type_synonym c_int = "32 word"

type_synonym kerror_t = int64_t
type_synonym ktid_t = uint64_t
type_synonym khandle_t = uint64_t

definition KSUCCESS :: kerror_t where
  "KSUCCESS = 0"

definition KERROR_PERMISSION_DENIED :: kerror_t where
  "KERROR_PERMISSION_DENIED = - 1"

definition KERROR_NOT_FOUND :: kerror_t where
  "KERROR_NOT_FOUND = - 2"

definition KERROR_INVALID_ARGUMENT :: kerror_t where
  "KERROR_INVALID_ARGUMENT = - 3"

definition KERROR_INTERRUPTED :: kerror_t where
  "KERROR_INTERRUPTED = - 4"

definition KERROR_BAD_HANDLE :: kerror_t where
  "KERROR_BAD_HANDLE = - 9"

definition KERROR_BUSY :: kerror_t where
  "KERROR_BUSY = - 11"

definition KERROR_OUT_OF_MEMORY :: kerror_t where
  "KERROR_OUT_OF_MEMORY = - 12"

definition KERROR_BAD_ADDRESS :: kerror_t where
  "KERROR_BAD_ADDRESS = - 14"

definition KERROR_ALREADY_EXISTS :: kerror_t where
  "KERROR_ALREADY_EXISTS = - 17"

definition KERROR_NOT_SUPPORTED :: kerror_t where
  "KERROR_NOT_SUPPORTED = - 38"

definition KERROR_NO_MESSAGE :: kerror_t where
  "KERROR_NO_MESSAGE = - 61"

definition KERROR_INTERNAL_ERROR :: kerror_t where
  "KERROR_INTERNAL_ERROR = - 255"

lemmas kerror_defs =
  KERROR_PERMISSION_DENIED_def KERROR_NOT_FOUND_def KERROR_INVALID_ARGUMENT_def
  KERROR_INTERRUPTED_def KERROR_BAD_HANDLE_def KERROR_BUSY_def KERROR_OUT_OF_MEMORY_def
  KERROR_BAD_ADDRESS_def KERROR_ALREADY_EXISTS_def KERROR_NOT_SUPPORTED_def
  KERROR_NO_MESSAGE_def KERROR_INTERNAL_ERROR_def

text \<open>
  The error kinds the header's constants stand for (the kernel's \<open>KError\<close> enumeration),
  and the constant of each kind.
\<close>

datatype KError =
    PermissionDenied | NotFound | InvalidArgument | Interrupted | BadHandle | Busy
  | OutOfMemory | BadAddress | AlreadyExists | NotSupported | NoMessage | Internal

fun kerror_code :: "KError \<Rightarrow> kerror_t" where
  "kerror_code PermissionDenied = KERROR_PERMISSION_DENIED"
| "kerror_code NotFound = KERROR_NOT_FOUND"
| "kerror_code InvalidArgument = KERROR_INVALID_ARGUMENT"
| "kerror_code Interrupted = KERROR_INTERRUPTED"
| "kerror_code BadHandle = KERROR_BAD_HANDLE"
| "kerror_code Busy = KERROR_BUSY"
| "kerror_code OutOfMemory = KERROR_OUT_OF_MEMORY"
| "kerror_code BadAddress = KERROR_BAD_ADDRESS"
| "kerror_code AlreadyExists = KERROR_ALREADY_EXISTS"
| "kerror_code NotSupported = KERROR_NOT_SUPPORTED"
| "kerror_code NoMessage = KERROR_NO_MESSAGE"
| "kerror_code Internal = KERROR_INTERNAL_ERROR"

definition all_KErrors :: "KError list" where
  "all_KErrors =
     [PermissionDenied, NotFound, InvalidArgument, Interrupted, BadHandle, Busy,
      OutOfMemory, BadAddress, AlreadyExists, NotSupported, NoMessage, Internal]"

section \<open>Pointers, faults and the hardware layer's calls\<close>

text \<open>
  A pointer is \<open>NULL\<close> or points at an object, whose contents the model carries with
  the pointer: a buffer is the list of its bytes, and a call that writes through a
  pointer returns the pointer with the new contents. C leaves a null dereference, an
  access past the end of the object and a use through a pointer cast to the wrong type
  undefined; the model makes each a \<open>fault\<close>, so that no claim is proved by reading
  an unspecified value.
\<close>

datatype 'a ptr = NULL | Ptr 'a

datatype fault = Null_dereference | Out_of_bounds | Bad_cast

text \<open>
  The functions of the hardware layer and of the kernel core are declared in the headers
  and implemented elsewhere. A call to one of them is an event, with its arguments, in
  the order the calls are made; the trace of a run is the list of its events.
\<close>

datatype provider_table = Dummy_console_provider_fns | Console_provider_fns

datatype event =
    Hardware_init
  | Interrupt_init
  | Timer_init
  | Memory_init
  | Call_global_ctors
  | Hardware_init_specific_device
  | Console_putc uint8_t
  | Debug_printf int "uint8_t list ptr"
  | Karnal_init
  | Resource_register_c_provider string size_t provider_table
  | Panic string
  | Task_spawn khandle_t "uint8_t list ptr" size_t
  | Scheduler_start
  | Low_power_idle_loop
  | Thread_yield

definition low_level_console_putc :: "uint8_t \<Rightarrow> event list \<Rightarrow> event list" where
  "low_level_console_putc c tr = tr @ [Console_putc c]"

text \<open>The bytes given to \<open>low_level_console_putc\<close> in a trace, in order.\<close>

fun console_bytes :: "event list \<Rightarrow> uint8_t list" where
  "console_bytes [] = []"
| "console_bytes (Console_putc c # tr) = c # console_bytes tr"
| "console_bytes (e # tr) = console_bytes tr"

section \<open>The C console driver (main.c)\<close>

record DummyConsoleState_t =
  dummy_status :: c_int

definition dummy_console_instance :: DummyConsoleState_t where
  "dummy_console_instance = \<lparr>dummy_status = 0\<rparr>"

text \<open>
  The C++ device class of \<open>karnal64/main.cpp\<close>; it is declared here because
  \<open>provider_data\<close> is a \<open>void*\<close> that may point at either driver's state.
\<close>

record KernelConsoleDevice =
  internal_state :: c_int

datatype provider_object =
    Dummy_console DummyConsoleState_t
  | Console_device KernelConsoleDevice

text \<open>
  A change of the driver's state through \<open>state = (DummyConsoleState_t*)provider_data\<close>,
  and the assignment \<open>state->dummy_status = v\<close>.
\<close>

fun update_dummy_state ::
  "(DummyConsoleState_t \<Rightarrow> DummyConsoleState_t) \<Rightarrow> provider_object ptr
     \<Rightarrow> fault + provider_object ptr" where
  "update_dummy_state f NULL = Inl Null_dereference"
| "update_dummy_state f (Ptr (Dummy_console st)) = Inr (Ptr (Dummy_console (f st)))"
| "update_dummy_state f (Ptr (Console_device d)) = Inl Bad_cast"

definition set_dummy_status :: "provider_object ptr \<Rightarrow> c_int \<Rightarrow> fault + provider_object ptr" where
  "set_dummy_status provider_data v =
     update_dummy_state (\<lambda>st. st\<lparr>dummy_status := v\<rparr>) provider_data"

text \<open>\<open>buffer[0] = c\<close> for a buffer that is not \<open>NULL\<close>.\<close>

fun store_first :: "uint8_t list \<Rightarrow> uint8_t \<Rightarrow> fault + uint8_t list" where
  "store_first [] c = Inl Out_of_bounds"
| "store_first (b # bs) c = Inr (c # bs)"

text \<open>
  \<open>dummy_console_read\<close>: the result is the returned value, the driver's state and the
  buffer after the call. The offset is not used.
\<close>

definition dummy_console_read ::
  "provider_object ptr \<Rightarrow> uint8_t list ptr \<Rightarrow> size_t \<Rightarrow> uint64_t
     \<Rightarrow> fault + (int64_t \<times> provider_object ptr \<times> uint8_t list ptr)" where
  "dummy_console_read provider_data buffer sz offset =
     (if sz = 0 then Inr (0, provider_data, buffer)
      else case buffer of
        NULL \<Rightarrow> Inr (KERROR_INVALID_ARGUMENT, provider_data, buffer)
      | Ptr bytes \<Rightarrow>
          (case store_first bytes 0x41 of
             Inl f \<Rightarrow> Inl f
           | Inr bytes' \<Rightarrow>
               (case set_dummy_status provider_data 1 of
                  Inl f \<Rightarrow> Inl f
                | Inr provider_data' \<Rightarrow> Inr (1, provider_data', Ptr bytes'))))"

text \<open>
  The loop \<open>for (size_t i = 0; i < size; ++i) low_level_console_putc(buffer[i]);\<close> that
  both drivers' write operations run, from index \<open>i\<close>.
\<close>

function putc_loop ::
  "uint8_t list ptr \<Rightarrow> size_t \<Rightarrow> size_t \<Rightarrow> event list \<Rightarrow> fault + event list" where
  "putc_loop buffer sz i tr =
     (if i < sz then
        (case buffer of
           NULL \<Rightarrow> Inl Null_dereference
         | Ptr bytes \<Rightarrow>
             if unat i < length bytes
             then putc_loop buffer sz (i + 1) (low_level_console_putc (bytes ! unat i) tr)
             else Inl Out_of_bounds)
      else Inr tr)"
  by pat_completeness auto

lemma size_t_increment: "(i :: size_t) < sz \<Longrightarrow> unat (i + 1) = Suc (unat i)"
proof -
  assume lt: "i < sz"
  have "unat i < unat sz"
    using lt by (simp add: word_less_nat_alt)
  moreover have "unat sz < 2 ^ 64"
    using unsigned_less [of sz, where 'a = nat] by simp
  ultimately have "unat i + unat (1 :: size_t) < 2 ^ LENGTH(64)"
    by simp
  then have "unat (i + 1) = unat i + unat (1 :: size_t)"
    by (simp only: unat_add_lem)
  then show ?thesis
    by simp
qed

termination putc_loop
proof (relation "measure (\<lambda>(buffer, sz, i, tr). unat sz - unat i)")
  show "wf (measure (\<lambda>(buffer, sz, i, tr). unat sz - unat i))"
    by simp
next
  fix buffer :: "uint8_t list ptr" and sz i :: size_t and tr :: "event list" and bytes
  assume lt: "i < sz"
  then have "unat i < unat sz"
    by (simp add: word_less_nat_alt)
  with size_t_increment [OF lt]
  show "((buffer, sz, i + 1, low_level_console_putc (bytes ! unat i) tr), (buffer, sz, i, tr))
          \<in> measure (\<lambda>(buffer, sz, i, tr). unat sz - unat i)"
    by simp
qed

declare putc_loop.simps [simp del]

text \<open>
  \<open>dummy_console_write\<close>: the result is the returned value, the driver's state and the
  trace after the call. The debugging \<open>printf\<close> is an event with its precision
  argument \<open>(int)size\<close> and its string argument.
\<close>

definition dummy_console_write ::
  "provider_object ptr \<Rightarrow> uint8_t list ptr \<Rightarrow> size_t \<Rightarrow> uint64_t \<Rightarrow> event list
     \<Rightarrow> fault + (int64_t \<times> provider_object ptr \<times> event list)" where
  "dummy_console_write provider_data buffer sz offset tr =
     (case putc_loop buffer sz 0 tr of
        Inl f \<Rightarrow> Inl f
      | Inr tr' \<Rightarrow>
          (case set_dummy_status provider_data 2 of
             Inl f \<Rightarrow> Inl f
           | Inr provider_data' \<Rightarrow>
               Inr (sz, provider_data',
                    tr' @ [Debug_printf (sint (ucast sz :: c_int)) buffer])))"

text \<open>
  \<open>dummy_console_control\<close>. The source compares the request with a constant
  \<open>DUMMY_CONSOLE_SET_MODE\<close> that no header defines and leaves the statements of that
  branch out (\<open>{ ... }\<close>): both are parameters here, the branch as a change of the
  driver's state that falls through to the statements after it.
\<close>

definition dummy_console_control ::
  "uint64_t \<Rightarrow> (DummyConsoleState_t \<Rightarrow> DummyConsoleState_t)
     \<Rightarrow> provider_object ptr \<Rightarrow> uint64_t \<Rightarrow> uint64_t
     \<Rightarrow> fault + (int64_t \<times> provider_object ptr)" where
  "dummy_console_control DUMMY_CONSOLE_SET_MODE set_mode provider_data request arg =
     (case (if request = DUMMY_CONSOLE_SET_MODE
            then update_dummy_state set_mode provider_data
            else Inr provider_data) of
        Inl f \<Rightarrow> Inl f
      | Inr provider_data1 \<Rightarrow>
          (case set_dummy_status provider_data1 3 of
             Inl f \<Rightarrow> Inl f
           | Inr provider_data' \<Rightarrow> Inr (0, provider_data')))"

section \<open>The C++ console device and its C wrappers (karnal64/main.cpp)\<close>

text \<open>
  The constructor of \<open>KernelConsoleDevice\<close>: the member starts at 0, the device is
  initialised (the call's arguments are left out in the source), the state becomes 1 and
  the character \<open>'C'\<close> goes to the low-level console.
\<close>

definition KernelConsoleDevice_ctor :: "event list \<Rightarrow> KernelConsoleDevice \<times> event list" where
  "KernelConsoleDevice_ctor tr =
     (let this = \<lparr>internal_state = 0\<rparr>;
          tr1 = tr @ [Hardware_init_specific_device];
          this1 = this\<lparr>internal_state := 1\<rparr>
      in (this1, low_level_console_putc 0x43 tr1))"

definition KernelConsoleDevice_Read ::
  "KernelConsoleDevice \<Rightarrow> uint8_t list ptr \<Rightarrow> size_t \<Rightarrow> uint64_t
     \<Rightarrow> fault + (kerror_t \<times> KernelConsoleDevice \<times> uint8_t list ptr)" where
  "KernelConsoleDevice_Read this buffer sz offset =
     (if sz = 0 then Inr (KSUCCESS, this, buffer)
      else case buffer of
        NULL \<Rightarrow> Inr (KERROR_INVALID_ARGUMENT, this, buffer)
      | Ptr bytes \<Rightarrow>
          (case store_first bytes 0x42 of
             Inl f \<Rightarrow> Inl f
           | Inr bytes' \<Rightarrow> Inr (1, this\<lparr>internal_state := 2\<rparr>, Ptr bytes')))"

definition KernelConsoleDevice_Write ::
  "KernelConsoleDevice \<Rightarrow> uint8_t list ptr \<Rightarrow> size_t \<Rightarrow> uint64_t \<Rightarrow> event list
     \<Rightarrow> fault + (kerror_t \<times> KernelConsoleDevice \<times> event list)" where
  "KernelConsoleDevice_Write this buffer sz offset tr =
     (if sz = 0 then Inr (KSUCCESS, this, tr)
      else case buffer of
        NULL \<Rightarrow> Inr (KERROR_INVALID_ARGUMENT, this, tr)
      | Ptr bytes \<Rightarrow>
          (case putc_loop buffer sz 0 tr of
             Inl f \<Rightarrow> Inl f
           | Inr tr' \<Rightarrow> Inr (sz, this\<lparr>internal_state := 3\<rparr>, tr')))"

definition KernelConsoleDevice_Control ::
  "KernelConsoleDevice \<Rightarrow> uint64_t \<Rightarrow> uint64_t \<Rightarrow> fault + (kerror_t \<times> KernelConsoleDevice)" where
  "KernelConsoleDevice_Control this request arg =
     Inr (KSUCCESS, this\<lparr>internal_state := 4\<rparr>)"

text \<open>
  \<open>static_cast<KernelConsoleDevice*>(provider_data)\<close> followed by a member call: the
  object behind the \<open>void*\<close> has to be a device.
\<close>

fun as_device :: "provider_object ptr \<Rightarrow> fault + KernelConsoleDevice" where
  "as_device NULL = Inl Null_dereference"
| "as_device (Ptr (Console_device d)) = Inr d"
| "as_device (Ptr (Dummy_console st)) = Inl Bad_cast"

definition kernel_console_read_wrapper ::
  "provider_object ptr \<Rightarrow> uint8_t list ptr \<Rightarrow> size_t \<Rightarrow> uint64_t
     \<Rightarrow> fault + (int64_t \<times> provider_object ptr \<times> uint8_t list ptr)" where
  "kernel_console_read_wrapper provider_data buffer sz offset =
     (case as_device provider_data of
        Inl f \<Rightarrow> Inl f
      | Inr device \<Rightarrow>
          (case KernelConsoleDevice_Read device buffer sz offset of
             Inl f \<Rightarrow> Inl f
           | Inr (r, device', buffer') \<Rightarrow> Inr (r, Ptr (Console_device device'), buffer')))"

definition kernel_console_write_wrapper ::
  "provider_object ptr \<Rightarrow> uint8_t list ptr \<Rightarrow> size_t \<Rightarrow> uint64_t \<Rightarrow> event list
     \<Rightarrow> fault + (int64_t \<times> provider_object ptr \<times> event list)" where
  "kernel_console_write_wrapper provider_data buffer sz offset tr =
     (case as_device provider_data of
        Inl f \<Rightarrow> Inl f
      | Inr device \<Rightarrow>
          (case KernelConsoleDevice_Write device buffer sz offset tr of
             Inl f \<Rightarrow> Inl f
           | Inr (r, device', tr') \<Rightarrow> Inr (r, Ptr (Console_device device'), tr')))"

definition kernel_console_control_wrapper ::
  "provider_object ptr \<Rightarrow> uint64_t \<Rightarrow> uint64_t \<Rightarrow> fault + (int64_t \<times> provider_object ptr)" where
  "kernel_console_control_wrapper provider_data request arg =
     (case as_device provider_data of
        Inl f \<Rightarrow> Inl f
      | Inr device \<Rightarrow>
          (case KernelConsoleDevice_Control device request arg of
             Inl f \<Rightarrow> Inl f
           | Inr (r, device') \<Rightarrow> Inr (r, Ptr (Console_device device'))))"

text \<open>The value a call returns, when it returns.\<close>

definition returned :: "fault + (int64_t \<times> 'a) \<Rightarrow> fault + int64_t" where
  "returned res = map_sum id fst res"

text \<open>
  What the provider contract asks of a read: the buffer, when there is one, holds at
  least \<open>size\<close> bytes; and the returned value is a negative error code or a count of
  at most \<open>size\<close>.
\<close>

definition buffer_holds :: "uint8_t list ptr \<Rightarrow> size_t \<Rightarrow> bool" where
  "buffer_holds buffer sz = (case buffer of NULL \<Rightarrow> True | Ptr bytes \<Rightarrow> unat sz \<le> length bytes)"

definition count_or_error :: "int64_t \<Rightarrow> size_t \<Rightarrow> bool" where
  "count_or_error r sz = (sint r < 0 \<or> (0 \<le> sint r \<and> sint r \<le> uint sz))"

section \<open>Kernel entry: main of main.c\<close>

text \<open>
  \<open>main\<close> calls functions that are implemented elsewhere and then loops for ever, so
  it is a machine that runs one statement per step: a state is the statement about to
  run (with the value of the local variable it reads) and the trace of the calls made so
  far. What \<open>karnal_resource_register_c_provider\<close> and \<open>karnal_task_spawn\<close> return is
  given by the environment; the other calls return nothing. Every call is taken to
  return: a call that did not would end the run there, with the trace made so far.
\<close>

record boot_env =
  register_returns :: int64_t
  spawn_returns :: int64_t

definition console_resource_id :: string where
  "console_resource_id = ''karnal://device/console''"

definition strlen :: "string \<Rightarrow> size_t" where
  "strlen str = of_nat (length str)"

datatype c_label =
    C_hardware_init
  | C_memory_init
  | C_karnal_init
  | C_register
  | C_check_reg int64_t
  | C_reg_panic
  | C_reg_hang
  | C_console_handle int64_t
  | C_spawn
  | C_check_spawn int64_t
  | C_spawn_panic
  | C_spawn_hang
  | C_init_task_id int64_t
  | C_scheduler_start
  | C_low_power_idle_loop
  | C_idle_loop
  | C_return
  | C_returned

type_synonym main_c_state = "c_label \<times> event list"

fun main_c_step :: "boot_env \<Rightarrow> main_c_state \<Rightarrow> main_c_state" where
  "main_c_step env (C_hardware_init, tr) = (C_memory_init, tr @ [Hardware_init])"
| "main_c_step env (C_memory_init, tr) = (C_karnal_init, tr @ [Memory_init])"
| "main_c_step env (C_karnal_init, tr) = (C_register, tr @ [Karnal_init])"
| "main_c_step env (C_register, tr) =
     (C_check_reg (register_returns env),
      tr @ [Resource_register_c_provider console_resource_id (strlen console_resource_id)
              Dummy_console_provider_fns])"
| "main_c_step env (C_check_reg reg_result, tr) =
     (if sint reg_result < 0 then (C_reg_panic, tr) else (C_console_handle reg_result, tr))"
| "main_c_step env (C_reg_panic, tr) =
     (C_reg_hang, tr @ [Panic ''Failed to register console resource!''])"
| "main_c_step env (C_reg_hang, tr) = (C_reg_hang, tr)"
| "main_c_step env (C_console_handle reg_result, tr) = (C_spawn, tr)"
| "main_c_step env (C_spawn, tr) =
     (let init_code_handle = 1; init_args_ptr = NULL; init_args_len = 0
      in (C_check_spawn (spawn_returns env),
          tr @ [Task_spawn init_code_handle init_args_ptr init_args_len]))"
| "main_c_step env (C_check_spawn spawn_result, tr) =
     (if sint spawn_result < 0 then (C_spawn_panic, tr) else (C_init_task_id spawn_result, tr))"
| "main_c_step env (C_spawn_panic, tr) =
     (C_spawn_hang, tr @ [Panic ''Failed to spawn initial task!''])"
| "main_c_step env (C_spawn_hang, tr) = (C_spawn_hang, tr)"
| "main_c_step env (C_init_task_id spawn_result, tr) = (C_scheduler_start, tr)"
| "main_c_step env (C_scheduler_start, tr) = (C_low_power_idle_loop, tr @ [Scheduler_start])"
| "main_c_step env (C_low_power_idle_loop, tr) = (C_idle_loop, tr @ [Low_power_idle_loop])"
| "main_c_step env (C_idle_loop, tr) = (C_idle_loop, tr)"
| "main_c_step env (C_return, tr) = (C_returned, tr)"
| "main_c_step env (C_returned, tr) = (C_returned, tr)"

text \<open>The state of \<open>main\<close> after \<open>n\<close> steps, from its first statement.\<close>

fun main_c_run :: "boot_env \<Rightarrow> nat \<Rightarrow> main_c_state" where
  "main_c_run env 0 = (C_hardware_init, [])"
| "main_c_run env (Suc n) = main_c_step env (main_c_run env n)"

section \<open>Kernel entry: main of karnal64/main.cpp\<close>

text \<open>
  The state has the global \<open>g_console_device\<close> as well: static storage is zeroed, and
  the constructor runs when the global constructors are called.
\<close>

datatype cpp_label =
    Cpp_hardware_init
  | Cpp_memory_init
  | Cpp_call_global_ctors
  | Cpp_boot_mark
  | Cpp_karnal_init
  | Cpp_register
  | Cpp_check_reg int64_t
  | Cpp_reg_panic
  | Cpp_reg_hang
  | Cpp_console_handle int64_t
  | Cpp_spawn
  | Cpp_check_spawn int64_t
  | Cpp_spawn_panic
  | Cpp_spawn_hang
  | Cpp_init_task_id int64_t
  | Cpp_low_power_idle_loop
  | Cpp_idle_loop
  | Cpp_returned

type_synonym main_cpp_state = "cpp_label \<times> event list \<times> KernelConsoleDevice"

fun main_cpp_step :: "boot_env \<Rightarrow> main_cpp_state \<Rightarrow> main_cpp_state" where
  "main_cpp_step env (Cpp_hardware_init, tr, g_console_device) =
     (Cpp_memory_init, tr @ [Hardware_init], g_console_device)"
| "main_cpp_step env (Cpp_memory_init, tr, g_console_device) =
     (Cpp_call_global_ctors, tr @ [Memory_init], g_console_device)"
| "main_cpp_step env (Cpp_call_global_ctors, tr, g_console_device) =
     (let (device, tr') = KernelConsoleDevice_ctor (tr @ [Call_global_ctors])
      in (Cpp_boot_mark, tr', device))"
| "main_cpp_step env (Cpp_boot_mark, tr, g_console_device) =
     (Cpp_karnal_init, low_level_console_putc 0x3E tr, g_console_device)"
| "main_cpp_step env (Cpp_karnal_init, tr, g_console_device) =
     (Cpp_register, tr @ [Karnal_init], g_console_device)"
| "main_cpp_step env (Cpp_register, tr, g_console_device) =
     (Cpp_check_reg (register_returns env),
      tr @ [Resource_register_c_provider console_resource_id (strlen console_resource_id)
              Console_provider_fns],
      g_console_device)"
| "main_cpp_step env (Cpp_check_reg reg_result, tr, g_console_device) =
     (if sint reg_result < 0 then (Cpp_reg_panic, tr, g_console_device)
      else (Cpp_console_handle reg_result, tr, g_console_device))"
| "main_cpp_step env (Cpp_reg_panic, tr, g_console_device) =
     (Cpp_reg_hang, tr @ [Panic ''Failed to register C++ console resource!''], g_console_device)"
| "main_cpp_step env (Cpp_reg_hang, tr, g_console_device) = (Cpp_reg_hang, tr, g_console_device)"
| "main_cpp_step env (Cpp_console_handle reg_result, tr, g_console_device) =
     (Cpp_spawn, tr, g_console_device)"
| "main_cpp_step env (Cpp_spawn, tr, g_console_device) =
     (let init_code_handle = 1; init_args_ptr = NULL; init_args_len = 0
      in (Cpp_check_spawn (spawn_returns env),
          tr @ [Task_spawn init_code_handle init_args_ptr init_args_len],
          g_console_device))"
| "main_cpp_step env (Cpp_check_spawn spawn_result, tr, g_console_device) =
     (if sint spawn_result < 0 then (Cpp_spawn_panic, tr, g_console_device)
      else (Cpp_init_task_id spawn_result, tr, g_console_device))"
| "main_cpp_step env (Cpp_spawn_panic, tr, g_console_device) =
     (Cpp_spawn_hang, tr @ [Panic ''Failed to spawn initial task!''], g_console_device)"
| "main_cpp_step env (Cpp_spawn_hang, tr, g_console_device) =
     (Cpp_spawn_hang, tr, g_console_device)"
| "main_cpp_step env (Cpp_init_task_id spawn_result, tr, g_console_device) =
     (Cpp_low_power_idle_loop, tr, g_console_device)"
| "main_cpp_step env (Cpp_low_power_idle_loop, tr, g_console_device) =
     (Cpp_idle_loop, tr @ [Low_power_idle_loop], g_console_device)"
| "main_cpp_step env (Cpp_idle_loop, tr, g_console_device) =
     (Cpp_idle_loop, tr @ [Thread_yield], g_console_device)"
| "main_cpp_step env (Cpp_returned, tr, g_console_device) =
     (Cpp_returned, tr, g_console_device)"

fun main_cpp_run :: "boot_env \<Rightarrow> nat \<Rightarrow> main_cpp_state" where
  "main_cpp_run env 0 = (Cpp_hardware_init, [], \<lparr>internal_state = 0\<rparr>)"
| "main_cpp_run env (Suc n) = main_cpp_step env (main_cpp_run env n)"

section \<open>Calls of a trace\<close>

text \<open>
  The calls of the boot hooks, of the memory manager's initialisation and of
  \<open>karnal_init\<close> in a trace, in order; and the calls of the kernel core's start-up
  (\<open>karnal_init\<close>, provider registration, task spawn).
\<close>

fun is_boot_call :: "event \<Rightarrow> bool" where
  "is_boot_call Hardware_init = True"
| "is_boot_call Interrupt_init = True"
| "is_boot_call Timer_init = True"
| "is_boot_call Memory_init = True"
| "is_boot_call Karnal_init = True"
| "is_boot_call e = False"

definition boot_calls :: "event list \<Rightarrow> event list" where
  "boot_calls tr = filter is_boot_call tr"

fun is_startup_call :: "event \<Rightarrow> bool" where
  "is_startup_call Karnal_init = True"
| "is_startup_call (Resource_register_c_provider resource_id len fns) = True"
| "is_startup_call (Task_spawn code_handle args_ptr args_len) = True"
| "is_startup_call e = False"

definition startup_calls :: "event list \<Rightarrow> event list" where
  "startup_calls tr = filter is_startup_call tr"

section \<open>Assertions at the statements of main\<close>

text \<open>
  The two calls both entry points make with the same arguments but for the provider
  table, and an environment in which registration and spawn succeed.
\<close>

definition c_register_call :: event where
  "c_register_call =
     Resource_register_c_provider console_resource_id (strlen console_resource_id)
       Dummy_console_provider_fns"

definition spawn_call :: event where
  "spawn_call = Task_spawn 1 NULL 0"

definition cpp_register_call :: event where
  "cpp_register_call =
     Resource_register_c_provider console_resource_id (strlen console_resource_id)
       Console_provider_fns"

definition boot_ok :: boot_env where
  "boot_ok = \<lparr>register_returns = 0, spawn_returns = 0\<rparr>"

text \<open>
  For each statement of the C \<open>main\<close>: the trace when control is there, and what is
  known of the environment there (\<open>False\<close> at the statements after the idle loop, which
  control never reaches). \<open>c_past_karnal_init\<close> holds of the statements after the call
  of \<open>karnal_init\<close>.
\<close>

fun c_trace_at :: "c_label \<Rightarrow> event list" where
  "c_trace_at C_hardware_init = []"
| "c_trace_at C_memory_init = [Hardware_init]"
| "c_trace_at C_karnal_init = [Hardware_init, Memory_init]"
| "c_trace_at C_register = [Hardware_init, Memory_init, Karnal_init]"
| "c_trace_at (C_check_reg r) = [Hardware_init, Memory_init, Karnal_init, c_register_call]"
| "c_trace_at C_reg_panic = [Hardware_init, Memory_init, Karnal_init, c_register_call]"
| "c_trace_at C_reg_hang =
     [Hardware_init, Memory_init, Karnal_init, c_register_call,
      Panic ''Failed to register console resource!'']"
| "c_trace_at (C_console_handle r) = [Hardware_init, Memory_init, Karnal_init, c_register_call]"
| "c_trace_at C_spawn = [Hardware_init, Memory_init, Karnal_init, c_register_call]"
| "c_trace_at (C_check_spawn r) =
     [Hardware_init, Memory_init, Karnal_init, c_register_call, spawn_call]"
| "c_trace_at C_spawn_panic =
     [Hardware_init, Memory_init, Karnal_init, c_register_call, spawn_call]"
| "c_trace_at C_spawn_hang =
     [Hardware_init, Memory_init, Karnal_init, c_register_call, spawn_call,
      Panic ''Failed to spawn initial task!'']"
| "c_trace_at (C_init_task_id r) =
     [Hardware_init, Memory_init, Karnal_init, c_register_call, spawn_call]"
| "c_trace_at C_scheduler_start =
     [Hardware_init, Memory_init, Karnal_init, c_register_call, spawn_call]"
| "c_trace_at C_low_power_idle_loop =
     [Hardware_init, Memory_init, Karnal_init, c_register_call, spawn_call, Scheduler_start]"
| "c_trace_at C_idle_loop =
     [Hardware_init, Memory_init, Karnal_init, c_register_call, spawn_call, Scheduler_start,
      Low_power_idle_loop]"
| "c_trace_at C_return = []"
| "c_trace_at C_returned = []"

fun c_label_ok :: "boot_env \<Rightarrow> c_label \<Rightarrow> bool" where
  "c_label_ok env (C_check_reg r) = (r = register_returns env)"
| "c_label_ok env C_reg_panic = (sint (register_returns env) < 0)"
| "c_label_ok env C_reg_hang = (sint (register_returns env) < 0)"
| "c_label_ok env (C_check_spawn r) = (r = spawn_returns env)"
| "c_label_ok env C_spawn_panic = (sint (spawn_returns env) < 0)"
| "c_label_ok env C_spawn_hang = (sint (spawn_returns env) < 0)"
| "c_label_ok env C_return = False"
| "c_label_ok env C_returned = False"
| "c_label_ok env l = True"

definition c_assertion :: "boot_env \<Rightarrow> main_c_state \<Rightarrow> bool" where
  "c_assertion env s = (c_label_ok env (fst s) \<and> snd s = c_trace_at (fst s))"

fun c_past_karnal_init :: "c_label \<Rightarrow> bool" where
  "c_past_karnal_init C_hardware_init = False"
| "c_past_karnal_init C_memory_init = False"
| "c_past_karnal_init C_karnal_init = False"
| "c_past_karnal_init l = True"

text \<open>
  The same for the C++ \<open>main\<close>, whose idle loop yields on every turn: the assertion
  is on the trace without the yields.
\<close>

definition cpp_boot_trace :: "event list" where
  "cpp_boot_trace =
     [Hardware_init, Memory_init, Call_global_ctors, Hardware_init_specific_device,
      Console_putc 0x43, Console_putc 0x3E, Karnal_init]"

fun cpp_trace_at :: "cpp_label \<Rightarrow> event list" where
  "cpp_trace_at Cpp_hardware_init = []"
| "cpp_trace_at Cpp_memory_init = [Hardware_init]"
| "cpp_trace_at Cpp_call_global_ctors = [Hardware_init, Memory_init]"
| "cpp_trace_at Cpp_boot_mark =
     [Hardware_init, Memory_init, Call_global_ctors, Hardware_init_specific_device,
      Console_putc 0x43]"
| "cpp_trace_at Cpp_karnal_init =
     [Hardware_init, Memory_init, Call_global_ctors, Hardware_init_specific_device,
      Console_putc 0x43, Console_putc 0x3E]"
| "cpp_trace_at Cpp_register = cpp_boot_trace"
| "cpp_trace_at (Cpp_check_reg r) = cpp_boot_trace @ [cpp_register_call]"
| "cpp_trace_at Cpp_reg_panic = cpp_boot_trace @ [cpp_register_call]"
| "cpp_trace_at Cpp_reg_hang =
     cpp_boot_trace @ [cpp_register_call, Panic ''Failed to register C++ console resource!'']"
| "cpp_trace_at (Cpp_console_handle r) = cpp_boot_trace @ [cpp_register_call]"
| "cpp_trace_at Cpp_spawn = cpp_boot_trace @ [cpp_register_call]"
| "cpp_trace_at (Cpp_check_spawn r) = cpp_boot_trace @ [cpp_register_call, spawn_call]"
| "cpp_trace_at Cpp_spawn_panic = cpp_boot_trace @ [cpp_register_call, spawn_call]"
| "cpp_trace_at Cpp_spawn_hang =
     cpp_boot_trace @ [cpp_register_call, spawn_call, Panic ''Failed to spawn initial task!'']"
| "cpp_trace_at (Cpp_init_task_id r) = cpp_boot_trace @ [cpp_register_call, spawn_call]"
| "cpp_trace_at Cpp_low_power_idle_loop = cpp_boot_trace @ [cpp_register_call, spawn_call]"
| "cpp_trace_at Cpp_idle_loop =
     cpp_boot_trace @ [cpp_register_call, spawn_call, Low_power_idle_loop]"
| "cpp_trace_at Cpp_returned = []"

fun cpp_label_ok :: "boot_env \<Rightarrow> cpp_label \<Rightarrow> bool" where
  "cpp_label_ok env (Cpp_check_reg r) = (r = register_returns env)"
| "cpp_label_ok env Cpp_reg_panic = (sint (register_returns env) < 0)"
| "cpp_label_ok env Cpp_reg_hang = (sint (register_returns env) < 0)"
| "cpp_label_ok env (Cpp_check_spawn r) = (r = spawn_returns env)"
| "cpp_label_ok env Cpp_spawn_panic = (sint (spawn_returns env) < 0)"
| "cpp_label_ok env Cpp_spawn_hang = (sint (spawn_returns env) < 0)"
| "cpp_label_ok env Cpp_returned = False"
| "cpp_label_ok env l = True"

definition without_yields :: "event list \<Rightarrow> event list" where
  "without_yields tr = filter (\<lambda>e. e \<noteq> Thread_yield) tr"

definition cpp_assertion :: "boot_env \<Rightarrow> main_cpp_state \<Rightarrow> bool" where
  "cpp_assertion env s =
     (cpp_label_ok env (fst s) \<and> without_yields (fst (snd s)) = cpp_trace_at (fst s))"

fun cpp_past_karnal_init :: "cpp_label \<Rightarrow> bool" where
  "cpp_past_karnal_init Cpp_hardware_init = False"
| "cpp_past_karnal_init Cpp_memory_init = False"
| "cpp_past_karnal_init Cpp_call_global_ctors = False"
| "cpp_past_karnal_init Cpp_boot_mark = False"
| "cpp_past_karnal_init Cpp_karnal_init = False"
| "cpp_past_karnal_init l = True"

section \<open>Error codes are negative and distinct\<close>

lemma all_KErrors_complete: "k \<in> set all_KErrors"
  by (cases k) (simp_all add: all_KErrors_def)

lemma kerror_code_negative: "sint (kerror_code k) < 0"
  by (cases k) (simp_all add: kerror_defs)

lemma kerror_code_sint:
  "map (\<lambda>k. sint (kerror_code k)) all_KErrors =
     [- 1, - 2, - 3, - 4, - 9, - 11, - 12, - 14, - 17, - 38, - 61, - 255]"
  by (simp add: all_KErrors_def kerror_defs)

lemma kerror_code_inj_on: "inj_on kerror_code (set all_KErrors)"
proof -
  have "distinct (map (sint \<circ> kerror_code) all_KErrors)"
    using kerror_code_sint by (simp add: comp_def)
  then have "inj_on (sint \<circ> kerror_code) (set all_KErrors)"
    by (simp add: distinct_map)
  then show ?thesis
    by (rule inj_on_imageI2)
qed

lemma kerror_code_inj: "kerror_code k = kerror_code k' \<Longrightarrow> k = k'"
  using kerror_code_inj_on all_KErrors_complete by (auto dest: inj_onD)

text \<open>
  C3. Each of the twelve error kinds has a strictly negative 64-bit signed code, two
  different kinds have different codes, \<open>KSUCCESS\<close> is non-negative, and a
  non-negative return value is the code of no error kind.
\<close>

theorem kerror_codes_negative_distinct:
  "sint (kerror_code k) < 0
   \<and> length all_KErrors = 12 \<and> distinct all_KErrors \<and> set all_KErrors = UNIV
   \<and> (kerror_code k = kerror_code k' \<longrightarrow> k = k')
   \<and> 0 \<le> sint KSUCCESS
   \<and> (0 \<le> sint v \<longrightarrow> v \<noteq> kerror_code k)"
proof -
  have neg: "sint (kerror_code k) < 0"
    by (rule kerror_code_negative)
  have univ: "set all_KErrors = UNIV"
    using all_KErrors_complete by auto
  have len: "length all_KErrors = 12 \<and> distinct all_KErrors"
    by (simp add: all_KErrors_def)
  have inj: "kerror_code k = kerror_code k' \<longrightarrow> k = k'"
    using kerror_code_inj by blast
  have ok: "0 \<le> sint KSUCCESS"
    by (simp add: KSUCCESS_def)
  have sep: "0 \<le> sint v \<longrightarrow> v \<noteq> kerror_code k"
    using neg by auto
  from neg univ len inj ok sep show ?thesis
    by blast
qed

theorem kerror_codes_negative_distinct_witness:
  "sint (kerror_code InvalidArgument) = - 3
   \<and> kerror_code InvalidArgument \<noteq> kerror_code BadHandle
   \<and> (2 :: int64_t) \<noteq> kerror_code InvalidArgument
   \<and> 0 \<le> sint (2 :: int64_t)"
proof -
  have two: "0 \<le> sint (2 :: int64_t)"
    by simp
  have ne: "InvalidArgument \<noteq> BadHandle"
    by simp
  from kerror_codes_negative_distinct [of InvalidArgument BadHandle 2] two ne
  have "kerror_code InvalidArgument \<noteq> kerror_code BadHandle"
    and "(2 :: int64_t) \<noteq> kerror_code InvalidArgument"
    by blast+
  moreover have "sint (kerror_code InvalidArgument) = - 3"
    by (simp add: KERROR_INVALID_ARGUMENT_def)
  ultimately show ?thesis
    using two by blast
qed

section \<open>The write loop\<close>

lemma putc_loop_unfold:
  "putc_loop (Ptr bytes) sz i tr =
     (if i < sz then
        (if unat i < length bytes
         then putc_loop (Ptr bytes) sz (i + 1) (tr @ [Console_putc (bytes ! unat i)])
         else Inl Out_of_bounds)
      else Inr tr)"
  by (subst putc_loop.simps) (simp add: low_level_console_putc_def)

lemma putc_loop_emits:
  "unat sz \<le> length bytes \<Longrightarrow> i \<le> sz \<Longrightarrow>
     putc_loop (Ptr bytes) sz i tr =
       Inr (tr @ map Console_putc (drop (unat i) (take (unat sz) bytes)))"
proof (induction "Ptr bytes :: uint8_t list ptr" sz i tr rule: putc_loop.induct)
  case (1 sz i tr)
  show ?case
  proof (cases "i < sz")
    case True
    then have lt: "unat i < unat sz"
      by (simp add: word_less_nat_alt)
    with "1.prems" have inb: "unat i < length bytes"
      by simp
    have suc: "unat (i + 1) = Suc (unat i)"
      using True by (rule size_t_increment)
    have le: "i + 1 \<le> sz"
      using True by (rule inc_le)
    have "putc_loop (Ptr bytes) sz (i + 1) (low_level_console_putc (bytes ! unat i) tr) =
            Inr (low_level_console_putc (bytes ! unat i) tr
                   @ map Console_putc (drop (unat (i + 1)) (take (unat sz) bytes)))"
      using "1.hyps" [OF True refl inb "1.prems"(1) le] .
    moreover have "drop (unat i) (take (unat sz) bytes) =
                     bytes ! unat i # drop (Suc (unat i)) (take (unat sz) bytes)"
      using lt inb by (simp add: Cons_nth_drop_Suc [symmetric])
    ultimately show ?thesis
      using True inb suc
      by (subst putc_loop_unfold) (simp add: low_level_console_putc_def)
  next
    case False
    with "1.prems" have "i = sz"
      by simp
    then show ?thesis
      by (subst putc_loop_unfold) simp
  qed
qed

lemma console_bytes_append: "console_bytes (tr @ tr') = console_bytes tr @ console_bytes tr'"
  by (induction tr rule: console_bytes.induct) simp_all

lemma console_bytes_putc: "console_bytes (map Console_putc bytes) = bytes"
  by (induction bytes) simp_all

lemma putc_loop_whole:
  assumes "unat sz = length bytes"
  shows "putc_loop (Ptr bytes) sz 0 tr = Inr (tr @ map Console_putc bytes)"
  using putc_loop_emits [of sz bytes 0 tr] assms by simp

lemma sint_size: "n < 2 ^ 63 \<Longrightarrow> unat (sz :: size_t) = n \<Longrightarrow> sint sz = int n"
proof -
  assume n: "n < 2 ^ 63" and sz: "unat sz = n"
  have "uint sz = int (unat sz)"
    by (rule uint_nat)
  then have u: "uint sz = int n"
    by (simp only: sz)
  have "int n < 2 ^ 63"
    using n by simp
  then have "signed_take_bit 63 (int n) = int n"
    by (intro signed_take_bit_int_eq_self) simp_all
  then have "signed_take_bit (LENGTH(64) - Suc 0) (uint sz) = int n"
    by (simp only: u) simp
  then show ?thesis
    by (simp only: sint_uint)
qed

section \<open>Console write\<close>

text \<open>
  C1. For a buffer of \<open>n\<close> bytes that is not \<open>NULL\<close> (a C object has fewer than
  \<open>2 ^ 63\<close> bytes), the write operation of either console provider called with size
  \<open>n\<close> returns \<open>n\<close>, and the bytes it gives to \<open>low_level_console_putc\<close> are
  exactly \<open>buffer[0]\<close>, ..., \<open>buffer[n-1]\<close>, one call each, in this order. The C driver
  also makes its debugging \<open>printf\<close> call afterwards, which is no console byte.
\<close>

theorem console_write_emits_buffer:
  assumes "length bytes < 2 ^ 63" and "unat sz = length bytes"
  shows "dummy_console_write (Ptr (Dummy_console st)) (Ptr bytes) sz offset tr =
           Inr (sz, Ptr (Dummy_console (st\<lparr>dummy_status := 2\<rparr>)),
                tr @ map Console_putc bytes @ [Debug_printf (sint (ucast sz :: c_int)) (Ptr bytes)])
         \<and> console_bytes (tr @ map Console_putc bytes
                             @ [Debug_printf (sint (ucast sz :: c_int)) (Ptr bytes)])
             = console_bytes tr @ bytes
         \<and> KernelConsoleDevice_Write this (Ptr bytes) sz offset tr =
             Inr (sz, if sz = 0 then this else this\<lparr>internal_state := 3\<rparr>,
                  tr @ map Console_putc bytes)
         \<and> console_bytes (tr @ map Console_putc bytes) = console_bytes tr @ bytes
         \<and> sint sz = int (length bytes)"
proof -
  have loop: "putc_loop (Ptr bytes) sz 0 tr = Inr (tr @ map Console_putc bytes)"
    using assms(2) by (rule putc_loop_whole)
  have c: "dummy_console_write (Ptr (Dummy_console st)) (Ptr bytes) sz offset tr =
           Inr (sz, Ptr (Dummy_console (st\<lparr>dummy_status := 2\<rparr>)),
                tr @ map Console_putc bytes @ [Debug_printf (sint (ucast sz :: c_int)) (Ptr bytes)])"
    by (simp add: dummy_console_write_def loop set_dummy_status_def)
  have empty: "sz = 0 \<Longrightarrow> bytes = []"
    using assms(2) by simp
  have cpp: "KernelConsoleDevice_Write this (Ptr bytes) sz offset tr =
             Inr (sz, if sz = 0 then this else this\<lparr>internal_state := 3\<rparr>,
                  tr @ map Console_putc bytes)"
    using empty by (simp add: KernelConsoleDevice_Write_def loop KSUCCESS_def)
  have b1: "console_bytes (tr @ map Console_putc bytes) = console_bytes tr @ bytes"
    by (simp add: console_bytes_append console_bytes_putc)
  have b2: "console_bytes (tr @ map Console_putc bytes
                             @ [Debug_printf (sint (ucast sz :: c_int)) (Ptr bytes)])
             = console_bytes tr @ bytes"
    by (simp add: console_bytes_append console_bytes_putc)
  have r: "sint sz = int (length bytes)"
    using assms by (rule sint_size)
  from c b2 cpp b1 r show ?thesis
    by blast
qed

text \<open>The buffer \<open>"hi"\<close> written with size 2.\<close>

theorem console_write_emits_buffer_witness:
  "dummy_console_write (Ptr (Dummy_console dummy_console_instance)) (Ptr [0x68, 0x69]) 2 0 [] =
     Inr (2, Ptr (Dummy_console \<lparr>dummy_status = 2\<rparr>),
          [Console_putc 0x68, Console_putc 0x69, Debug_printf 2 (Ptr [0x68, 0x69])])
   \<and> KernelConsoleDevice_Write \<lparr>internal_state = 1\<rparr> (Ptr [0x68, 0x69]) 2 0 [] =
       Inr (2, \<lparr>internal_state = 3\<rparr>, [Console_putc 0x68, Console_putc 0x69])
   \<and> sint (2 :: int64_t) = 2"
proof -
  have len: "length [0x68, 0x69 :: uint8_t] < 2 ^ 63"
    by simp
  have sz: "unat (2 :: size_t) = length [0x68, 0x69 :: uint8_t]"
    by simp
  show ?thesis
    using console_write_emits_buffer [OF len sz, of dummy_console_instance 0 "[]" "\<lparr>internal_state = 1\<rparr>"]
    by (simp add: dummy_console_instance_def)
qed

section \<open>The C wrappers of the C++ device\<close>

text \<open>
  C4. When \<open>provider_data\<close> points at a \<open>KernelConsoleDevice\<close>, each of the three
  wrappers returns what the method of the same name returns on the same arguments, with
  the method's effects on the device, the buffer and the console and nothing more: the
  method is called once and its result is passed on as it is.
\<close>

theorem console_wrappers_pass_through:
  "kernel_console_read_wrapper (Ptr (Console_device device)) buffer sz offset =
     map_sum id (\<lambda>(r, device', buffer'). (r, Ptr (Console_device device'), buffer'))
       (KernelConsoleDevice_Read device buffer sz offset)
   \<and> kernel_console_write_wrapper (Ptr (Console_device device)) buffer sz offset tr =
       map_sum id (\<lambda>(r, device', tr'). (r, Ptr (Console_device device'), tr'))
         (KernelConsoleDevice_Write device buffer sz offset tr)
   \<and> kernel_console_control_wrapper (Ptr (Console_device device)) request arg =
       map_sum id (\<lambda>(r, device'). (r, Ptr (Console_device device')))
         (KernelConsoleDevice_Control device request arg)
   \<and> returned (kernel_console_read_wrapper (Ptr (Console_device device)) buffer sz offset) =
       returned (KernelConsoleDevice_Read device buffer sz offset)
   \<and> returned (kernel_console_write_wrapper (Ptr (Console_device device)) buffer sz offset tr) =
       returned (KernelConsoleDevice_Write device buffer sz offset tr)
   \<and> returned (kernel_console_control_wrapper (Ptr (Console_device device)) request arg) =
       returned (KernelConsoleDevice_Control device request arg)"
proof -
  have r: "kernel_console_read_wrapper (Ptr (Console_device device)) buffer sz offset =
     map_sum id (\<lambda>(r, device', buffer'). (r, Ptr (Console_device device'), buffer'))
       (KernelConsoleDevice_Read device buffer sz offset)"
    by (cases "KernelConsoleDevice_Read device buffer sz offset")
       (auto simp: kernel_console_read_wrapper_def)
  have w: "kernel_console_write_wrapper (Ptr (Console_device device)) buffer sz offset tr =
       map_sum id (\<lambda>(r, device', tr'). (r, Ptr (Console_device device'), tr'))
         (KernelConsoleDevice_Write device buffer sz offset tr)"
    by (cases "KernelConsoleDevice_Write device buffer sz offset tr")
       (auto simp: kernel_console_write_wrapper_def)
  have c: "kernel_console_control_wrapper (Ptr (Console_device device)) request arg =
       map_sum id (\<lambda>(r, device'). (r, Ptr (Console_device device')))
         (KernelConsoleDevice_Control device request arg)"
    by (cases "KernelConsoleDevice_Control device request arg")
       (auto simp: kernel_console_control_wrapper_def)
  have r': "returned (kernel_console_read_wrapper (Ptr (Console_device device)) buffer sz offset) =
       returned (KernelConsoleDevice_Read device buffer sz offset)"
    unfolding r returned_def
    by (cases "KernelConsoleDevice_Read device buffer sz offset") auto
  have w': "returned (kernel_console_write_wrapper (Ptr (Console_device device)) buffer sz offset tr) =
       returned (KernelConsoleDevice_Write device buffer sz offset tr)"
    unfolding w returned_def
    by (cases "KernelConsoleDevice_Write device buffer sz offset tr") auto
  have c': "returned (kernel_console_control_wrapper (Ptr (Console_device device)) request arg) =
       returned (KernelConsoleDevice_Control device request arg)"
    unfolding c returned_def
    by (cases "KernelConsoleDevice_Control device request arg") auto
  from r w c r' w' c' show ?thesis
    by blast
qed

theorem console_wrappers_pass_through_witness:
  "returned (kernel_console_read_wrapper (Ptr (Console_device \<lparr>internal_state = 1\<rparr>))
              (Ptr [0x00, 0x00]) 2 0) = Inr 1
   \<and> returned (kernel_console_read_wrapper (Ptr (Console_device \<lparr>internal_state = 1\<rparr>))
              NULL 2 0) = Inr KERROR_INVALID_ARGUMENT
   \<and> returned (kernel_console_control_wrapper (Ptr (Console_device \<lparr>internal_state = 1\<rparr>))
              7 9) = Inr 0"
proof -
  have r: "returned (KernelConsoleDevice_Read \<lparr>internal_state = 1\<rparr> (Ptr [0x00, 0x00]) 2 0) = Inr 1"
    by (simp add: returned_def KernelConsoleDevice_Read_def)
  have e: "returned (KernelConsoleDevice_Read \<lparr>internal_state = 1\<rparr> NULL 2 0)
             = Inr KERROR_INVALID_ARGUMENT"
    by (simp add: returned_def KernelConsoleDevice_Read_def)
  have c: "returned (KernelConsoleDevice_Control \<lparr>internal_state = 1\<rparr> 7 9) = Inr 0"
    by (simp add: returned_def KernelConsoleDevice_Control_def KSUCCESS_def)
  have w1: "returned (kernel_console_read_wrapper (Ptr (Console_device \<lparr>internal_state = 1\<rparr>))
                        (Ptr [0x00, 0x00]) 2 0)
            = returned (KernelConsoleDevice_Read \<lparr>internal_state = 1\<rparr> (Ptr [0x00, 0x00]) 2 0)"
    and w3: "returned (kernel_console_control_wrapper (Ptr (Console_device \<lparr>internal_state = 1\<rparr>))
                        7 9)
            = returned (KernelConsoleDevice_Control \<lparr>internal_state = 1\<rparr> 7 9)"
    using console_wrappers_pass_through
            [of "\<lparr>internal_state = 1\<rparr>" "Ptr [0x00, 0x00]" 2 0 "[]" 7 9]
    by blast+
  have w2: "returned (kernel_console_read_wrapper (Ptr (Console_device \<lparr>internal_state = 1\<rparr>))
                        NULL 2 0)
            = returned (KernelConsoleDevice_Read \<lparr>internal_state = 1\<rparr> NULL 2 0)"
    using console_wrappers_pass_through [of "\<lparr>internal_state = 1\<rparr>" NULL 2 0 "[]" 7 9]
    by blast
  show ?thesis
    by (simp only: w1 w2 w3 r e c)
qed

section \<open>Console read\<close>

lemma store_first_ok: "bytes \<noteq> [] \<Longrightarrow> store_first bytes c = Inr (bytes[0 := c])"
  by (cases bytes) simp_all

lemma one_le_size: "(sz :: size_t) \<noteq> 0 \<Longrightarrow> 1 \<le> uint sz"
  by (metis int_one_le_iff_zero_less uint_0_iff uint_nonnegative order_le_less)

lemma dummy_console_read_range:
  "dummy_console_read provider_data buffer sz offset = Inr (r, provider_data', buffer')
     \<Longrightarrow> count_or_error r sz"
  using one_le_size [of sz]
  by (auto simp: dummy_console_read_def count_or_error_def KERROR_INVALID_ARGUMENT_def
           split: if_splits ptr.splits sum.splits)

lemma KernelConsoleDevice_Read_range:
  "KernelConsoleDevice_Read this buffer sz offset = Inr (r, this', buffer')
     \<Longrightarrow> count_or_error r sz"
  using one_le_size [of sz]
  by (auto simp: KernelConsoleDevice_Read_def count_or_error_def KERROR_INVALID_ARGUMENT_def
                 KSUCCESS_def
           split: if_splits ptr.splits sum.splits)

lemma dummy_console_read_returns:
  "buffer_holds buffer sz \<Longrightarrow>
     \<exists>r provider_data' buffer'.
       dummy_console_read (Ptr (Dummy_console st)) buffer sz offset = Inr (r, provider_data', buffer')"
proof (cases buffer)
  case NULL
  then show ?thesis
    by (simp add: dummy_console_read_def)
next
  case (Ptr bytes)
  assume "buffer_holds buffer sz"
  with Ptr have "sz \<noteq> 0 \<Longrightarrow> bytes \<noteq> []"
    by (auto simp: buffer_holds_def unat_0_iff)
  with Ptr show ?thesis
    by (auto simp: dummy_console_read_def store_first_ok set_dummy_status_def)
qed

lemma KernelConsoleDevice_Read_returns:
  "buffer_holds buffer sz \<Longrightarrow>
     \<exists>r this' buffer'.
       KernelConsoleDevice_Read this buffer sz offset = Inr (r, this', buffer')"
proof (cases buffer)
  case NULL
  then show ?thesis
    by (simp add: KernelConsoleDevice_Read_def)
next
  case (Ptr bytes)
  assume "buffer_holds buffer sz"
  with Ptr have "sz \<noteq> 0 \<Longrightarrow> bytes \<noteq> []"
    by (auto simp: buffer_holds_def unat_0_iff)
  with Ptr show ?thesis
    by (auto simp: KernelConsoleDevice_Read_def store_first_ok)
qed

text \<open>
  C6. Whatever the buffer and the size, a value returned by the read operation of either
  console provider is a negative error code or a count between 0 and the size; and the
  operation does return when the buffer is \<open>NULL\<close> or holds at least \<open>size\<close> bytes.
\<close>

theorem console_read_count_within_size:
  "(dummy_console_read provider_data buffer sz offset = Inr (r, provider_data', buffer')
      \<longrightarrow> count_or_error r sz)
   \<and> (KernelConsoleDevice_Read this buffer sz offset = Inr (r, this', buffer')
      \<longrightarrow> count_or_error r sz)
   \<and> (buffer_holds buffer sz \<longrightarrow>
        (\<exists>r1 provider_data1 buffer1.
            dummy_console_read (Ptr (Dummy_console st)) buffer sz offset
              = Inr (r1, provider_data1, buffer1)
            \<and> count_or_error r1 sz)
        \<and> (\<exists>r2 this2 buffer2.
            KernelConsoleDevice_Read this buffer sz offset = Inr (r2, this2, buffer2)
            \<and> count_or_error r2 sz)
        \<and> (\<exists>r3 provider_data3 buffer3.
            kernel_console_read_wrapper (Ptr (Console_device this)) buffer sz offset
              = Inr (r3, provider_data3, buffer3)
            \<and> count_or_error r3 sz))"
proof (intro conjI impI)
  assume "dummy_console_read provider_data buffer sz offset = Inr (r, provider_data', buffer')"
  then show "count_or_error r sz"
    by (rule dummy_console_read_range)
next
  assume "KernelConsoleDevice_Read this buffer sz offset = Inr (r, this', buffer')"
  then show "count_or_error r sz"
    by (rule KernelConsoleDevice_Read_range)
next
  assume holds: "buffer_holds buffer sz"
  obtain r1 pd1 b1 where
    c: "dummy_console_read (Ptr (Dummy_console st)) buffer sz offset = Inr (r1, pd1, b1)"
    using dummy_console_read_returns [OF holds] by blast
  with dummy_console_read_range [OF c]
  show "\<exists>r1 provider_data1 buffer1.
          dummy_console_read (Ptr (Dummy_console st)) buffer sz offset
            = Inr (r1, provider_data1, buffer1)
          \<and> count_or_error r1 sz"
    by blast
  obtain r2 this2 b2 where
    cpp: "KernelConsoleDevice_Read this buffer sz offset = Inr (r2, this2, b2)"
    using KernelConsoleDevice_Read_returns [OF holds] by blast
  with KernelConsoleDevice_Read_range [OF cpp]
  show "\<exists>r2 this2 buffer2.
          KernelConsoleDevice_Read this buffer sz offset = Inr (r2, this2, buffer2)
          \<and> count_or_error r2 sz"
    by blast
  have "kernel_console_read_wrapper (Ptr (Console_device this)) buffer sz offset
          = Inr (r2, Ptr (Console_device this2), b2)"
    by (simp add: kernel_console_read_wrapper_def cpp)
  with KernelConsoleDevice_Read_range [OF cpp]
  show "\<exists>r3 provider_data3 buffer3.
          kernel_console_read_wrapper (Ptr (Console_device this)) buffer sz offset
            = Inr (r3, provider_data3, buffer3)
          \<and> count_or_error r3 sz"
    by blast
qed

theorem console_read_count_within_size_witness:
  "dummy_console_read (Ptr (Dummy_console dummy_console_instance)) (Ptr [0x00, 0x00, 0x00]) 3 0
     = Inr (1, Ptr (Dummy_console \<lparr>dummy_status = 1\<rparr>), Ptr [0x41, 0x00, 0x00])
   \<and> KernelConsoleDevice_Read \<lparr>internal_state = 1\<rparr> (Ptr [0x00, 0x00, 0x00]) 3 0
     = Inr (1, \<lparr>internal_state = 2\<rparr>, Ptr [0x42, 0x00, 0x00])
   \<and> buffer_holds (Ptr [0x00, 0x00, 0x00]) 3
   \<and> count_or_error 1 3"
proof -
  have c: "dummy_console_read (Ptr (Dummy_console dummy_console_instance))
             (Ptr [0x00, 0x00, 0x00]) 3 0
           = Inr (1, Ptr (Dummy_console \<lparr>dummy_status = 1\<rparr>), Ptr [0x41, 0x00, 0x00])"
    by (simp add: dummy_console_read_def set_dummy_status_def dummy_console_instance_def)
  have cpp: "KernelConsoleDevice_Read \<lparr>internal_state = 1\<rparr> (Ptr [0x00, 0x00, 0x00]) 3 0
           = Inr (1, \<lparr>internal_state = 2\<rparr>, Ptr [0x42, 0x00, 0x00])"
    by (simp add: KernelConsoleDevice_Read_def)
  have holds: "buffer_holds (Ptr [0x00, 0x00, 0x00]) 3"
    by (simp add: buffer_holds_def)
  from console_read_count_within_size
         [of "Ptr (Dummy_console dummy_console_instance)" "Ptr [0x00, 0x00, 0x00]" 3 0 1
             "Ptr (Dummy_console \<lparr>dummy_status = 1\<rparr>)" "Ptr [0x41, 0x00, 0x00]"] c
  have "count_or_error 1 3"
    by blast
  with c cpp holds show ?thesis
    by blast
qed

text \<open>
  C8. With a size of at least 1 and a buffer that holds at least \<open>size\<close> bytes,
  \<open>dummy_console_read\<close> stores the character \<open>'A'\<close> (0x41) in \<open>buffer[0]\<close>, leaves
  every other byte of the buffer as it was, and returns 1.
\<close>

theorem dummy_console_read_writes_first_byte_only:
  assumes "sz \<noteq> 0" and "unat sz \<le> length bytes"
  shows "dummy_console_read (Ptr (Dummy_console st)) (Ptr bytes) sz offset =
           Inr (1, Ptr (Dummy_console (st\<lparr>dummy_status := 1\<rparr>)), Ptr (bytes[0 := 0x41]))
         \<and> length (bytes[0 := 0x41]) = length bytes
         \<and> bytes[0 := 0x41] ! 0 = 0x41
         \<and> (\<forall>i. 0 < i \<and> i < length bytes \<longrightarrow> bytes[0 := 0x41] ! i = bytes ! i)
         \<and> sint (1 :: int64_t) = 1"
proof -
  have "unat sz \<noteq> 0"
    using assms(1) by (simp add: unat_0_iff)
  with assms(2) have ne: "bytes \<noteq> []"
    by auto
  then have "dummy_console_read (Ptr (Dummy_console st)) (Ptr bytes) sz offset =
           Inr (1, Ptr (Dummy_console (st\<lparr>dummy_status := 1\<rparr>)), Ptr (bytes[0 := 0x41]))"
    using assms(1) by (simp add: dummy_console_read_def store_first_ok set_dummy_status_def)
  moreover have "bytes[0 := 0x41] ! 0 = 0x41"
    using ne by simp
  ultimately show ?thesis
    by simp
qed

theorem dummy_console_read_writes_first_byte_only_witness:
  "dummy_console_read (Ptr (Dummy_console dummy_console_instance)) (Ptr [0x10, 0x20, 0x30]) 3 0 =
     Inr (1, Ptr (Dummy_console \<lparr>dummy_status = 1\<rparr>), Ptr [0x41, 0x20, 0x30])"
proof -
  have nz: "(3 :: size_t) \<noteq> 0"
    by simp
  have le: "unat (3 :: size_t) \<le> length [0x10, 0x20, 0x30 :: uint8_t]"
    by simp
  show ?thesis
    using dummy_console_read_writes_first_byte_only [OF nz le, of dummy_console_instance 0]
    by (simp add: dummy_console_instance_def)
qed

text \<open>
  C9. With size 0 the read operation of either console provider returns 0 and changes
  nothing, whatever the buffer is, \<open>NULL\<close> included (and whatever \<open>provider_data\<close>
  is: nothing is dereferenced); the \<open>NULL\<close> buffer is answered with
  \<open>KERROR_INVALID_ARGUMENT\<close> only when the size is not 0.
\<close>

theorem console_read_size_zero:
  "dummy_console_read provider_data buffer 0 offset = Inr (0, provider_data, buffer)
   \<and> KernelConsoleDevice_Read this buffer 0 offset = Inr (0, this, buffer)
   \<and> (sz \<noteq> 0 \<longrightarrow>
        dummy_console_read provider_data NULL sz offset
          = Inr (KERROR_INVALID_ARGUMENT, provider_data, NULL)
        \<and> KernelConsoleDevice_Read this NULL sz offset
          = Inr (KERROR_INVALID_ARGUMENT, this, NULL))"
proof -
  have c0: "dummy_console_read provider_data buffer 0 offset = Inr (0, provider_data, buffer)"
    by (simp add: dummy_console_read_def)
  have cpp0: "KernelConsoleDevice_Read this buffer 0 offset = Inr (0, this, buffer)"
    by (simp add: KernelConsoleDevice_Read_def KSUCCESS_def)
  have null: "sz \<noteq> 0 \<longrightarrow>
        dummy_console_read provider_data NULL sz offset
          = Inr (KERROR_INVALID_ARGUMENT, provider_data, NULL)
        \<and> KernelConsoleDevice_Read this NULL sz offset
          = Inr (KERROR_INVALID_ARGUMENT, this, NULL)"
    by (simp add: dummy_console_read_def KernelConsoleDevice_Read_def)
  from c0 cpp0 null show ?thesis
    by blast
qed

theorem console_read_size_zero_witness:
  "dummy_console_read NULL NULL 0 0 = Inr (0, NULL, NULL)
   \<and> KernelConsoleDevice_Read \<lparr>internal_state = 1\<rparr> NULL 0 0 = Inr (0, \<lparr>internal_state = 1\<rparr>, NULL)
   \<and> dummy_console_read NULL NULL 1 0 = Inr (- 3, NULL, NULL)
   \<and> KernelConsoleDevice_Read \<lparr>internal_state = 1\<rparr> NULL 1 0
       = Inr (- 3, \<lparr>internal_state = 1\<rparr>, NULL)"
proof -
  have nz: "(1 :: size_t) \<noteq> 0"
    by simp
  show ?thesis
    using console_read_size_zero [of NULL NULL 0 "\<lparr>internal_state = 1\<rparr>" 1] nz
    by (simp add: KERROR_INVALID_ARGUMENT_def)
qed

section \<open>Console control\<close>

text \<open>
  C10. For every request and argument the control operation of either console provider
  returns 0, which is success and no error code; so does the C wrapper of the C++ method.
\<close>

theorem console_control_returns_zero:
  "dummy_console_control DUMMY_CONSOLE_SET_MODE set_mode (Ptr (Dummy_console st)) request arg =
     Inr (0, Ptr (Dummy_console
            ((if request = DUMMY_CONSOLE_SET_MODE then set_mode st else st)\<lparr>dummy_status := 3\<rparr>)))
   \<and> KernelConsoleDevice_Control this request arg = Inr (0, this\<lparr>internal_state := 4\<rparr>)
   \<and> kernel_console_control_wrapper (Ptr (Console_device this)) request arg =
       Inr (0, Ptr (Console_device (this\<lparr>internal_state := 4\<rparr>)))
   \<and> sint (0 :: int64_t) = 0"
proof -
  have c: "dummy_console_control DUMMY_CONSOLE_SET_MODE set_mode (Ptr (Dummy_console st)) request arg =
     Inr (0, Ptr (Dummy_console
            ((if request = DUMMY_CONSOLE_SET_MODE then set_mode st else st)\<lparr>dummy_status := 3\<rparr>)))"
    by (simp add: dummy_console_control_def set_dummy_status_def)
  have cpp: "KernelConsoleDevice_Control this request arg = Inr (0, this\<lparr>internal_state := 4\<rparr>)"
    by (simp add: KernelConsoleDevice_Control_def KSUCCESS_def)
  have w: "kernel_console_control_wrapper (Ptr (Console_device this)) request arg =
       Inr (0, Ptr (Console_device (this\<lparr>internal_state := 4\<rparr>)))"
    by (simp add: kernel_console_control_wrapper_def cpp)
  from c cpp w show ?thesis
    by simp
qed

theorem console_control_returns_zero_witness:
  "returned (dummy_console_control 1 (\<lambda>st. st) (Ptr (Dummy_console dummy_console_instance)) 1 5)
     = Inr 0
   \<and> returned (dummy_console_control 1 (\<lambda>st. st) (Ptr (Dummy_console dummy_console_instance)) 2 5)
     = Inr 0
   \<and> returned (KernelConsoleDevice_Control \<lparr>internal_state = 1\<rparr> 2 5) = Inr 0"
proof -
  note a = console_control_returns_zero
             [of 1 "\<lambda>st. st" dummy_console_instance 1 5 "\<lparr>internal_state = 1\<rparr>"]
  note b = console_control_returns_zero
             [of 1 "\<lambda>st. st" dummy_console_instance 2 5 "\<lparr>internal_state = 1\<rparr>"]
  have "returned (dummy_console_control 1 (\<lambda>st. st) (Ptr (Dummy_console dummy_console_instance)) 1 5)
          = Inr 0"
    using a by (simp add: returned_def)
  moreover
  have "returned (dummy_console_control 1 (\<lambda>st. st) (Ptr (Dummy_console dummy_console_instance)) 2 5)
          = Inr 0"
    using b by (simp add: returned_def)
  moreover
  have "returned (KernelConsoleDevice_Control \<lparr>internal_state = 1\<rparr> 2 5) = Inr 0"
    using b by (simp add: returned_def)
  ultimately show ?thesis
    by blast
qed

section \<open>The assertions hold in every run of main.c\<close>

lemma c_assertion_step: "c_assertion env s \<Longrightarrow> c_assertion env (main_c_step env s)"
proof -
  assume a: "c_assertion env s"
  obtain l tr where s: "s = (l, tr)"
    by (cases s)
  show ?thesis
    using a unfolding s c_assertion_def
    by (cases l) (simp_all add: c_register_call_def spawn_call_def)
qed

lemma c_assertion_run: "c_assertion env (main_c_run env n)"
  by (induction n) (simp_all add: c_assertion_step, simp add: c_assertion_def)

lemma c_past_karnal_init_step:
  "c_past_karnal_init (fst s) \<Longrightarrow> c_past_karnal_init (fst (main_c_step env s))"
proof -
  assume a: "c_past_karnal_init (fst s)"
  obtain l tr where s: "s = (l, tr)"
    by (cases s)
  show ?thesis
    using a unfolding s by (cases l) simp_all
qed

lemma c_past_karnal_init_run:
  "c_past_karnal_init (fst (main_c_run env m))
     \<Longrightarrow> c_past_karnal_init (fst (main_c_run env (m + k)))"
  by (induction k) (simp_all add: c_past_karnal_init_step)

lemma c_past_karnal_init_3: "c_past_karnal_init (fst (main_c_run env 3))"
  by (simp add: eval_nat_numeral)

lemma c_boot_calls_at:
  "c_past_karnal_init l \<Longrightarrow> boot_calls (c_trace_at l) = [Hardware_init, Memory_init, Karnal_init] \<or> l = C_return \<or> l = C_returned"
  by (cases l) (simp_all add: boot_calls_def c_register_call_def spawn_call_def)

lemma c_boot_calls_run:
  assumes "3 \<le> n"
  shows "boot_calls (snd (main_c_run env n)) = [Hardware_init, Memory_init, Karnal_init]"
proof -
  obtain k where n: "n = 3 + k"
    using assms by (metis le_Suc_ex)
  have past: "c_past_karnal_init (fst (main_c_run env n))"
    unfolding n by (rule c_past_karnal_init_run [OF c_past_karnal_init_3])
  have a: "c_assertion env (main_c_run env n)"
    by (rule c_assertion_run)
  then have "fst (main_c_run env n) \<noteq> C_return" "fst (main_c_run env n) \<noteq> C_returned"
    by (auto simp: c_assertion_def)
  with c_boot_calls_at [OF past] a show ?thesis
    by (simp add: c_assertion_def)
qed

lemma c_never_interrupt_timer_init:
  "Interrupt_init \<notin> set (snd (main_c_run env n)) \<and> Timer_init \<notin> set (snd (main_c_run env n))"
proof -
  have a: "snd (main_c_run env n) = c_trace_at (fst (main_c_run env n))"
    using c_assertion_run [of env n] by (simp add: c_assertion_def)
  show ?thesis
    unfolding a
    by (cases "fst (main_c_run env n)") (simp_all add: c_register_call_def spawn_call_def)
qed

lemma c_idle_loop_stays:
  "fst (main_c_run env m) = C_idle_loop \<Longrightarrow> fst (main_c_run env (m + k)) = C_idle_loop"
proof (induction k)
  case 0
  then show ?case by simp
next
  case (Suc k)
  then have "fst (main_c_run env (m + k)) = C_idle_loop"
    by simp
  then obtain tr where "main_c_run env (m + k) = (C_idle_loop, tr)"
    by (cases "main_c_run env (m + k)") simp
  then show ?case
    by simp
qed

lemma c_never_returns:
  "fst (main_c_run env n) \<noteq> C_return \<and> fst (main_c_run env n) \<noteq> C_returned"
  using c_assertion_run [of env n] by (auto simp: c_assertion_def)

lemma c_reaches_idle_loop:
  assumes "0 \<le> sint (register_returns env)" and "0 \<le> sint (spawn_returns env)"
  shows "fst (main_c_run env 11) = C_idle_loop"
  using assms by (simp add: eval_nat_numeral)

lemma c_startup_calls_at_idle:
  assumes "fst (main_c_run env n) = C_idle_loop"
  shows "startup_calls (snd (main_c_run env n)) = [Karnal_init, c_register_call, spawn_call]"
proof -
  have "snd (main_c_run env n) = c_trace_at C_idle_loop"
    using c_assertion_run [of env n] assms by (simp add: c_assertion_def)
  then show ?thesis
    by (simp add: startup_calls_def c_register_call_def spawn_call_def)
qed

section \<open>The assertions hold in every run of karnal64/main.cpp\<close>

lemma cpp_assertion_step: "cpp_assertion env s \<Longrightarrow> cpp_assertion env (main_cpp_step env s)"
proof -
  assume a: "cpp_assertion env s"
  obtain l tr dev where s: "s = (l, tr, dev)"
    by (cases s)
  show ?thesis
    using a unfolding s cpp_assertion_def
    by (cases l)
       (simp_all add: cpp_register_call_def spawn_call_def cpp_boot_trace_def without_yields_def
          KernelConsoleDevice_ctor_def low_level_console_putc_def)
qed

lemma cpp_assertion_run: "cpp_assertion env (main_cpp_run env n)"
proof (induction n)
  case 0
  show ?case
    by (simp add: cpp_assertion_def without_yields_def)
next
  case (Suc n)
  then show ?case
    by (simp add: cpp_assertion_step)
qed

lemma cpp_past_karnal_init_step:
  "cpp_past_karnal_init (fst s) \<Longrightarrow> cpp_past_karnal_init (fst (main_cpp_step env s))"
proof -
  assume a: "cpp_past_karnal_init (fst s)"
  obtain l tr dev where s: "s = (l, tr, dev)"
    by (cases s)
  show ?thesis
    using a unfolding s by (cases l) simp_all
qed

lemma cpp_past_karnal_init_run:
  "cpp_past_karnal_init (fst (main_cpp_run env m))
     \<Longrightarrow> cpp_past_karnal_init (fst (main_cpp_run env (m + k)))"
  by (induction k) (simp_all add: cpp_past_karnal_init_step)

lemma cpp_past_karnal_init_5: "cpp_past_karnal_init (fst (main_cpp_run env 5))"
  by (simp add: eval_nat_numeral KernelConsoleDevice_ctor_def)

lemma boot_calls_without_yields: "boot_calls (without_yields tr) = boot_calls tr"
  by (induction tr) (auto simp: boot_calls_def without_yields_def)

lemma startup_calls_without_yields: "startup_calls (without_yields tr) = startup_calls tr"
  by (induction tr) (auto simp: startup_calls_def without_yields_def)

lemma cpp_boot_calls_at:
  "cpp_past_karnal_init l \<Longrightarrow>
     boot_calls (cpp_trace_at l) = [Hardware_init, Memory_init, Karnal_init] \<or> l = Cpp_returned"
  by (cases l)
     (simp_all add: boot_calls_def cpp_register_call_def spawn_call_def cpp_boot_trace_def)

lemma cpp_boot_calls_run:
  assumes "5 \<le> n"
  shows "boot_calls (fst (snd (main_cpp_run env n))) = [Hardware_init, Memory_init, Karnal_init]"
proof -
  obtain k where n: "n = 5 + k"
    using assms by (metis le_Suc_ex)
  have past: "cpp_past_karnal_init (fst (main_cpp_run env n))"
    unfolding n by (rule cpp_past_karnal_init_run [OF cpp_past_karnal_init_5])
  have a: "cpp_assertion env (main_cpp_run env n)"
    by (rule cpp_assertion_run)
  then have "fst (main_cpp_run env n) \<noteq> Cpp_returned"
    by (auto simp: cpp_assertion_def)
  with cpp_boot_calls_at [OF past] a
  have "boot_calls (without_yields (fst (snd (main_cpp_run env n))))
          = [Hardware_init, Memory_init, Karnal_init]"
    by (simp add: cpp_assertion_def)
  then show ?thesis
    by (simp only: boot_calls_without_yields)
qed

lemma cpp_never_interrupt_timer_init:
  "Interrupt_init \<notin> set (fst (snd (main_cpp_run env n)))
   \<and> Timer_init \<notin> set (fst (snd (main_cpp_run env n)))"
proof -
  have a: "without_yields (fst (snd (main_cpp_run env n))) = cpp_trace_at (fst (main_cpp_run env n))"
    using cpp_assertion_run [of env n] by (simp add: cpp_assertion_def)
  have "Interrupt_init \<notin> set (without_yields (fst (snd (main_cpp_run env n))))
        \<and> Timer_init \<notin> set (without_yields (fst (snd (main_cpp_run env n))))"
    unfolding a
    by (cases "fst (main_cpp_run env n)")
       (simp_all add: cpp_register_call_def spawn_call_def cpp_boot_trace_def)
  then show ?thesis
    by (simp add: without_yields_def)
qed

lemma cpp_idle_loop_stays:
  "fst (main_cpp_run env m) = Cpp_idle_loop \<Longrightarrow> fst (main_cpp_run env (m + k)) = Cpp_idle_loop"
proof (induction k)
  case 0
  then show ?case by simp
next
  case (Suc k)
  then have "fst (main_cpp_run env (m + k)) = Cpp_idle_loop"
    by simp
  then obtain tr dev where "main_cpp_run env (m + k) = (Cpp_idle_loop, tr, dev)"
    by (cases "main_cpp_run env (m + k)") simp
  then show ?case
    by simp
qed

lemma cpp_never_returns: "fst (main_cpp_run env n) \<noteq> Cpp_returned"
  using cpp_assertion_run [of env n] by (auto simp: cpp_assertion_def)

lemma cpp_reaches_idle_loop:
  assumes "0 \<le> sint (register_returns env)" and "0 \<le> sint (spawn_returns env)"
  shows "fst (main_cpp_run env 12) = Cpp_idle_loop"
  using assms by (simp add: eval_nat_numeral KernelConsoleDevice_ctor_def)

lemma cpp_startup_calls_at_idle:
  assumes "fst (main_cpp_run env n) = Cpp_idle_loop"
  shows "startup_calls (fst (snd (main_cpp_run env n)))
           = [Karnal_init, cpp_register_call, spawn_call]"
proof -
  have "without_yields (fst (snd (main_cpp_run env n))) = cpp_trace_at Cpp_idle_loop"
    using cpp_assertion_run [of env n] assms by (simp add: cpp_assertion_def)
  then have "startup_calls (without_yields (fst (snd (main_cpp_run env n))))
               = [Karnal_init, cpp_register_call, spawn_call]"
    by (simp add: startup_calls_def cpp_register_call_def spawn_call_def cpp_boot_trace_def)
  then show ?thesis
    by (simp only: startup_calls_without_yields)
qed

lemma c_startup_calls_prefix:
  "startup_calls (snd (main_c_run env n)) =
     take (length (startup_calls (snd (main_c_run env n))))
       [Karnal_init, c_register_call, spawn_call]"
proof -
  have a: "snd (main_c_run env n) = c_trace_at (fst (main_c_run env n))"
    using c_assertion_run [of env n] by (simp add: c_assertion_def)
  show ?thesis
    unfolding a
    by (cases "fst (main_c_run env n)")
       (simp_all add: startup_calls_def c_register_call_def spawn_call_def)
qed

lemma cpp_startup_calls_prefix:
  "startup_calls (fst (snd (main_cpp_run env n))) =
     take (length (startup_calls (fst (snd (main_cpp_run env n)))))
       [Karnal_init, cpp_register_call, spawn_call]"
proof -
  have a: "without_yields (fst (snd (main_cpp_run env n))) = cpp_trace_at (fst (main_cpp_run env n))"
    using cpp_assertion_run [of env n] by (simp add: cpp_assertion_def)
  have "startup_calls (without_yields (fst (snd (main_cpp_run env n)))) =
     take (length (startup_calls (without_yields (fst (snd (main_cpp_run env n))))))
       [Karnal_init, cpp_register_call, spawn_call]"
    unfolding a
    by (cases "fst (main_cpp_run env n)")
       (simp_all add: startup_calls_def cpp_register_call_def spawn_call_def cpp_boot_trace_def)
  then show ?thesis
    by (simp only: startup_calls_without_yields)
qed

section \<open>Start-up order\<close>

text \<open>
  C2, as stated, fails: in the run of either \<open>main\<close> in which registration and spawn
  succeed, control is in the idle loop after 11 (C) and 12 (C++) steps, and by then
  neither \<open>low_level_interrupt_init\<close> nor \<open>low_level_timer_init\<close> has been called
  at all, so neither has been called exactly once.
\<close>

theorem boot_hooks_counterexample:
  "fst (main_c_run boot_ok 11) = C_idle_loop
   \<and> count_list (snd (main_c_run boot_ok 11)) Interrupt_init \<noteq> 1
   \<and> count_list (snd (main_c_run boot_ok 11)) Timer_init \<noteq> 1
   \<and> fst (main_cpp_run boot_ok 12) = Cpp_idle_loop
   \<and> count_list (fst (snd (main_cpp_run boot_ok 12))) Interrupt_init \<noteq> 1
   \<and> count_list (fst (snd (main_cpp_run boot_ok 12))) Timer_init \<noteq> 1"
  by (simp add: eval_nat_numeral boot_ok_def KernelConsoleDevice_ctor_def
        low_level_console_putc_def)

text \<open>
  C2, amended. In every run of either \<open>main\<close>, once \<open>karnal_init\<close> has been called
  (from the third step of the C entry point and the fifth of the C++ one on), the calls
  of the boot hooks, of the memory manager's initialisation and of \<open>karnal_init\<close> made
  so far are \<open>low_level_hardware_init\<close>, \<open>low_level_memory_init\<close> and
  \<open>karnal_init\<close>, once each and in this order; \<open>low_level_interrupt_init\<close> and
  \<open>low_level_timer_init\<close> are never called.
\<close>

theorem boot_calls_of_main:
  "(3 \<le> n \<longrightarrow>
      boot_calls (snd (main_c_run env n)) = [Hardware_init, Memory_init, Karnal_init])
   \<and> (5 \<le> n \<longrightarrow>
      boot_calls (fst (snd (main_cpp_run env n))) = [Hardware_init, Memory_init, Karnal_init])
   \<and> Interrupt_init \<notin> set (snd (main_c_run env n))
   \<and> Timer_init \<notin> set (snd (main_c_run env n))
   \<and> Interrupt_init \<notin> set (fst (snd (main_cpp_run env n)))
   \<and> Timer_init \<notin> set (fst (snd (main_cpp_run env n)))"
  using c_boot_calls_run [of n env] cpp_boot_calls_run [of n env]
    c_never_interrupt_timer_init [of env n] cpp_never_interrupt_timer_init [of env n]
  by blast

theorem boot_calls_of_main_witness:
  "boot_calls (snd (main_c_run boot_ok 11)) = [Hardware_init, Memory_init, Karnal_init]
   \<and> boot_calls (fst (snd (main_cpp_run boot_ok 11))) = [Hardware_init, Memory_init, Karnal_init]
   \<and> (3 :: nat) \<le> 11 \<and> (5 :: nat) \<le> 11"
proof -
  have a: "(3 :: nat) \<le> 11" and b: "(5 :: nat) \<le> 11"
    by simp_all
  show ?thesis
    using boot_calls_of_main [of 11 boot_ok] a b by blast
qed

text \<open>
  C5. When registration and spawn both return a non-negative value, \<open>main\<close> reaches
  its idle loop (after 11 steps in C, 12 in C++), and whenever control is in the idle loop
  the calls of the kernel core's start-up made so far are \<open>karnal_init\<close>, then
  \<open>karnal_resource_register_c_provider\<close> for the console, then \<open>karnal_task_spawn\<close>,
  once each. At every moment of the run the calls made so far are an initial part of
  this sequence.
\<close>

theorem startup_calls_in_order:
  assumes "0 \<le> sint (register_returns env)" and "0 \<le> sint (spawn_returns env)"
  shows "fst (main_c_run env 11) = C_idle_loop
    \<and> (fst (main_c_run env n) = C_idle_loop \<longrightarrow>
         startup_calls (snd (main_c_run env n)) =
           [Karnal_init,
            Resource_register_c_provider console_resource_id (strlen console_resource_id)
              Dummy_console_provider_fns,
            Task_spawn 1 NULL 0])
    \<and> startup_calls (snd (main_c_run env n)) =
         take (length (startup_calls (snd (main_c_run env n))))
           [Karnal_init,
            Resource_register_c_provider console_resource_id (strlen console_resource_id)
              Dummy_console_provider_fns,
            Task_spawn 1 NULL 0]
    \<and> fst (main_cpp_run env 12) = Cpp_idle_loop
    \<and> (fst (main_cpp_run env n) = Cpp_idle_loop \<longrightarrow>
         startup_calls (fst (snd (main_cpp_run env n))) =
           [Karnal_init,
            Resource_register_c_provider console_resource_id (strlen console_resource_id)
              Console_provider_fns,
            Task_spawn 1 NULL 0])
    \<and> startup_calls (fst (snd (main_cpp_run env n))) =
         take (length (startup_calls (fst (snd (main_cpp_run env n)))))
           [Karnal_init,
            Resource_register_c_provider console_resource_id (strlen console_resource_id)
              Console_provider_fns,
            Task_spawn 1 NULL 0]"
proof -
  have c1: "fst (main_c_run env 11) = C_idle_loop"
    using assms by (rule c_reaches_idle_loop)
  have cpp1: "fst (main_cpp_run env 12) = Cpp_idle_loop"
    using assms by (rule cpp_reaches_idle_loop)
  note c2 = c_startup_calls_at_idle [of env n, unfolded c_register_call_def spawn_call_def]
  note cpp2 = cpp_startup_calls_at_idle [of env n, unfolded cpp_register_call_def spawn_call_def]
  note c3 = c_startup_calls_prefix [of env n, unfolded c_register_call_def spawn_call_def]
  note cpp3 = cpp_startup_calls_prefix [of env n, unfolded cpp_register_call_def spawn_call_def]
  from c1 cpp1 c2 cpp2 c3 cpp3 show ?thesis
    by blast
qed

theorem startup_calls_in_order_witness:
  "startup_calls (snd (main_c_run boot_ok 11)) =
     [Karnal_init,
      Resource_register_c_provider ''karnal://device/console'' 23 Dummy_console_provider_fns,
      Task_spawn 1 NULL 0]
   \<and> startup_calls (fst (snd (main_cpp_run boot_ok 12))) =
     [Karnal_init,
      Resource_register_c_provider ''karnal://device/console'' 23 Console_provider_fns,
      Task_spawn 1 NULL 0]"
proof -
  have r: "0 \<le> sint (register_returns boot_ok)" and s: "0 \<le> sint (spawn_returns boot_ok)"
    by (simp_all add: boot_ok_def)
  have len: "strlen console_resource_id = 23"
    by (simp add: strlen_def console_resource_id_def)
  from startup_calls_in_order [OF r s, of 11] startup_calls_in_order [OF r s, of 12]
  show ?thesis
    by (simp add: len) (simp add: console_resource_id_def)
qed

text \<open>
  C7. Once control is in the final idle loop of \<open>main\<close> it is there after any number
  of further steps; and in no run does control reach a statement after the loop or the
  end of \<open>main\<close>.
\<close>

theorem idle_loop_never_left:
  "(fst (main_c_run env m) = C_idle_loop \<longrightarrow> fst (main_c_run env (m + k)) = C_idle_loop)
   \<and> fst (main_c_run env n) \<noteq> C_return
   \<and> fst (main_c_run env n) \<noteq> C_returned
   \<and> (fst (main_cpp_run env m) = Cpp_idle_loop \<longrightarrow>
        fst (main_cpp_run env (m + k)) = Cpp_idle_loop)
   \<and> fst (main_cpp_run env n) \<noteq> Cpp_returned"
  using c_idle_loop_stays [of env m k] cpp_idle_loop_stays [of env m k]
    c_never_returns [of env n] cpp_never_returns [of env n]
  by blast

theorem idle_loop_never_left_witness:
  "fst (main_c_run boot_ok 11) = C_idle_loop
   \<and> fst (main_c_run boot_ok 1000) = C_idle_loop
   \<and> fst (main_cpp_run boot_ok 12) = Cpp_idle_loop
   \<and> fst (main_cpp_run boot_ok 1000) = Cpp_idle_loop"
proof -
  have c: "fst (main_c_run boot_ok 11) = C_idle_loop"
    by (simp add: eval_nat_numeral boot_ok_def)
  have cpp: "fst (main_cpp_run boot_ok 12) = Cpp_idle_loop"
    by (simp add: eval_nat_numeral boot_ok_def KernelConsoleDevice_ctor_def)
  from idle_loop_never_left [of boot_ok 11 989] c
  have c': "fst (main_c_run boot_ok 1000) = C_idle_loop"
    by simp
  from idle_loop_never_left [of boot_ok 12 988] cpp
  have cpp': "fst (main_cpp_run boot_ok 1000) = Cpp_idle_loop"
    by simp
  from c c' cpp cpp' show ?thesis
    by blast
qed

end
